theory Spec2Isabelle
  imports Complex_Main "HOL-Library.Word"
begin

section \<open>The upload engine of worker/upload.go\<close>

text \<open>
  A shallow embedding of the slab-upload state machine, the uploader and the uploader pool of
  \<^verbatim>\<open>worker/upload.go\<close>. Mutexes, tracing spans, loggers and the memory grant are left out:
  every function below is the body that runs while the corresponding mutex is held.
  Go's \<^verbatim>\<open>uint64\<close> is \<open>64 word\<close> (arithmetic wraps), 32-byte keys and hashes are \<open>256 word\<close>
  (the zero value is \<open>0\<close>), \<^verbatim>\<open>time.Duration\<close> is an \<open>int\<close> of nanoseconds, an instant is an
  \<open>int\<close> of nanoseconds and \<^verbatim>\<open>float64\<close> is idealised by \<open>real\<close>.
\<close>

subsection \<open>Basic types\<close>

type_synonym uint64 = "64 word"
type_synonym publicKey = "256 word"
type_synonym fileContractID = "256 word"
type_synonym hash256 = "256 word"
type_synonym uploadID = "64 word"

text \<open>Errors of the package, the opaque error of a host, and the run-time panics.\<close>

datatype err =
    errNoCandidateUploader
  | errNotEnoughContracts nat int
  | errHost string
  | errSlabUploadFailed uint64 uint64 uint64 uint64 nat nat "(publicKey \<times> err) list"
  | panicDivideByZero
  | panicNilDereference
  | panicIndexOutOfRange

definition SectorSize :: int where
  "SectorSize = 4194304"

definition statsRecomputeMinInterval :: int where
  "statsRecomputeMinInterval = 3 * 1000000000"

definition maxDuration :: int where
  "maxDuration = 2 ^ 63 - 1"

definition MaxInt :: int where
  "MaxInt = 2 ^ 63 - 1"

text \<open>Go's integer division truncates towards zero.\<close>

definition tdiv :: "int \<Rightarrow> int \<Rightarrow> int" where
  "tdiv a b = sgn a * sgn b * (\<bar>a\<bar> div \<bar>b\<bar>)"

text \<open>\<^verbatim>\<open>Duration.Milliseconds\<close>: the nanoseconds divided by \<open>10\<^sup>6\<close>.\<close>

definition Milliseconds :: "int \<Rightarrow> int" where
  "Milliseconds d = tdiv d 1000000"

text \<open>
  \<^verbatim>\<open>time.Since\<close> at the instant \<open>now\<close>; \<open>None\<close> is the zero \<^verbatim>\<open>time.Time\<close>, whose distance
  to any present instant saturates.
\<close>

definition since :: "int \<Rightarrow> int option \<Rightarrow> int" where
  "since now t = (case t of None \<Rightarrow> maxDuration | Some t0 \<Rightarrow> now - t0)"

subsection \<open>Requests and uploaders\<close>

text \<open>
  A \<^verbatim>\<open>*sectorUpload\<close> is identified by the value of its \<^verbatim>\<open>index\<close> field:
  \<^verbatim>\<open>newSlabUpload\<close> stores the sector of index \<open>sI\<close> under the key \<open>sI\<close> of \<^verbatim>\<open>s.sectors\<close>
  and nothing else writes that map, so \<open>req_sector\<close> holds that key. The response channel
  is shared by all requests of a slab and is not a field.
\<close>

record sectorUploadReq =
  req_lockPriority :: int
  req_overdrive :: bool
  req_sector :: nat
  req_uploadID :: uploadID
  req_fcid :: fileContractID
  req_hk :: publicKey

record sectorUploadResp =
  resp_req :: sectorUploadReq
  resp_root :: hash256
  resp_err :: "err option"

text \<open>
  The package \<^verbatim>\<open>stats\<close> is not part of the sources at hand. Its \<^verbatim>\<open>DataPoints\<close> are an
  abstract type \<open>'dp\<close> and its operations are parameters.
\<close>

record 'dp statsOps =
  st_Default :: 'dp
  st_NoDecay :: 'dp
  st_Track :: "real \<Rightarrow> 'dp \<Rightarrow> 'dp"
  st_P90 :: "'dp \<Rightarrow> real"
  st_Recompute :: "'dp \<Rightarrow> 'dp"

text \<open>The host handle made by \<^verbatim>\<open>hp.newHostV3\<close> is the triple of its arguments.\<close>

type_synonym hostV3 = "fileContractID \<times> publicKey \<times> string"

record 'dp uploader =
  u_hk :: publicKey
  u_siamuxAddr :: string
  u_bh :: uint64
  u_endHeight :: uint64
  u_fcid :: fileContractID
  u_host :: hostV3
  u_queue :: "sectorUploadReq list"
  u_consecutiveFailures :: uint64
  u_lastRecompute :: "int option"
  u_statsSectorUploadEstimateInMS :: 'dp
  u_statsSectorUploadSpeedBytesPerMS :: 'dp

definition enqueue :: "sectorUploadReq \<Rightarrow> 'dp uploader \<Rightarrow> sectorUploadReq \<times> 'dp uploader" where
  "enqueue req u =
     (let req' = req\<lparr>req_fcid := u_fcid u, req_hk := u_hk u\<rparr>
      in (req', u\<lparr>u_queue := u_queue u @ [req']\<rparr>))"

definition pop :: "'dp uploader \<Rightarrow> sectorUploadReq option \<times> 'dp uploader" where
  "pop u = (case u_queue u of [] \<Rightarrow> (None, u) | j # q \<Rightarrow> (Some j, u\<lparr>u_queue := q\<rparr>))"

definition estimate :: "'dp statsOps \<Rightarrow> 'dp uploader \<Rightarrow> real" where
  "estimate ops u =
     (let estimateP90 = st_P90 ops (u_statsSectorUploadEstimateInMS u);
          estimateP90 = (if estimateP90 = 0 then 1 else estimateP90);
          numSectors = real (length (u_queue u) + 1)
      in numSectors * estimateP90)"

text \<open>
  \<^verbatim>\<open>trackSectorUpload(err, d)\<close>. The division \<^verbatim>\<open>rhpv2.SectorSize / ms\<close> is an integer
  division of \<^verbatim>\<open>int64\<close>, which panics when \<^verbatim>\<open>ms\<close> is zero.
\<close>

definition trackSectorUpload ::
  "'dp statsOps \<Rightarrow> err option \<Rightarrow> int \<Rightarrow> 'dp uploader \<Rightarrow> err + 'dp uploader" where
  "trackSectorUpload ops e d u =
     (case e of
        Some _ \<Rightarrow>
          Inr (u\<lparr>u_consecutiveFailures := u_consecutiveFailures u + 1,
                 u_statsSectorUploadEstimateInMS :=
                   st_Track ops (real_of_int (Milliseconds 3600000000000))
                     (u_statsSectorUploadEstimateInMS u)\<rparr>)
      | None \<Rightarrow>
          (let ms = Milliseconds d
           in if ms = 0 then Inl panicDivideByZero
              else Inr (u\<lparr>u_consecutiveFailures := 0,
                          u_statsSectorUploadEstimateInMS :=
                            st_Track ops (real_of_int ms) (u_statsSectorUploadEstimateInMS u),
                          u_statsSectorUploadSpeedBytesPerMS :=
                            st_Track ops (real_of_int (tdiv SectorSize ms))
                              (u_statsSectorUploadSpeedBytesPerMS u)\<rparr>)))"

subsection \<open>The uploader pool\<close>

text \<open>The fields of \<^verbatim>\<open>api.ContractMetadata\<close> that the upload manager reads.\<close>

record contractMetadata =
  c_ID :: fileContractID
  c_HostKey :: publicKey
  c_SiamuxAddr :: string
  c_RenewedFrom :: fileContractID
  c_WindowEnd :: uint64

record 'dp uploadManager =
  mgr_maxOverdrive :: uint64
  mgr_overdriveTimeout :: int
  mgr_uploaders :: "'dp uploader list"

record upload =
  up_id :: uploadID
  up_allowed :: "publicKey set"
  up_lockPriority :: int

text \<open>
  What the pool does to the world outside its own list: stopping an uploader fails the
  requests still queued on it, starting one spawns its worker, and \<^verbatim>\<open>api.NewUploadID\<close>
  draws a fresh identifier.
\<close>

datatype 'dp effect =
    Stopped "'dp uploader"
  | Renewed "'dp uploader" contractMetadata
  | Started "'dp uploader"
  | MintedUploadID uploadID

definition newUploader :: "'dp statsOps \<Rightarrow> contractMetadata \<Rightarrow> uint64 \<Rightarrow> 'dp uploader" where
  "newUploader ops c bh =
     \<lparr>u_hk = c_HostKey c,
      u_siamuxAddr = c_SiamuxAddr c,
      u_bh = bh,
      u_endHeight = c_WindowEnd c,
      u_fcid = c_ID c,
      u_host = (c_ID c, c_HostKey c, c_SiamuxAddr c),
      u_queue = [],
      u_consecutiveFailures = 0,
      u_lastRecompute = None,
      u_statsSectorUploadEstimateInMS = st_Default ops,
      u_statsSectorUploadSpeedBytesPerMS = st_NoDecay ops\<rparr>"

definition renew :: "contractMetadata \<Rightarrow> uint64 \<Rightarrow> 'dp uploader \<Rightarrow> 'dp uploader" where
  "renew c bh u =
     u\<lparr>u_bh := bh,
       u_host := (c_ID c, c_HostKey c, c_SiamuxAddr c),
       u_fcid := c_ID c,
       u_siamuxAddr := c_SiamuxAddr c,
       u_endHeight := c_WindowEnd c\<rparr>"

definition updateBlockHeight :: "uint64 \<Rightarrow> 'dp uploader \<Rightarrow> 'dp uploader" where
  "updateBlockHeight bh u = u\<lparr>u_bh := bh\<rparr>"

definition tryRecomputeStats :: "'dp statsOps \<Rightarrow> int \<Rightarrow> 'dp uploader \<Rightarrow> 'dp uploader" where
  "tryRecomputeStats ops now u =
     (if since now (u_lastRecompute u) < statsRecomputeMinInterval then u
      else u\<lparr>u_lastRecompute := Some now,
             u_statsSectorUploadEstimateInMS :=
               st_Recompute ops (u_statsSectorUploadEstimateInMS u),
             u_statsSectorUploadSpeedBytesPerMS :=
               st_Recompute ops (u_statsSectorUploadSpeedBytesPerMS u)\<rparr>)"

text \<open>The two maps built from the contract list; a later contract overwrites an earlier one.\<close>

fun buildToKeep ::
  "contractMetadata list \<Rightarrow> (fileContractID \<rightharpoonup> contractMetadata) \<Rightarrow> (fileContractID \<rightharpoonup> contractMetadata)" where
  "buildToKeep [] m = m"
| "buildToKeep (c # cs) m = buildToKeep cs (m(c_ID c \<mapsto> c))"

fun buildRenewedTo ::
  "contractMetadata list \<Rightarrow> (fileContractID \<rightharpoonup> contractMetadata) \<Rightarrow> (fileContractID \<rightharpoonup> contractMetadata)" where
  "buildRenewedTo [] m = m"
| "buildRenewedTo (c # cs) m =
     buildRenewedTo cs (if c_RenewedFrom c \<noteq> 0 then m(c_RenewedFrom c \<mapsto> c) else m)"

text \<open>
  The loop over the existing uploaders. It returns the uploaders kept, the effects in the
  order they happen, and what is left of \<^verbatim>\<open>toKeep\<close>.
\<close>

fun refreshLoop ::
  "'dp statsOps \<Rightarrow> int \<Rightarrow> uint64 \<Rightarrow> (fileContractID \<rightharpoonup> contractMetadata) \<Rightarrow> 'dp uploader list \<Rightarrow>
   (fileContractID \<rightharpoonup> contractMetadata) \<Rightarrow>
   'dp uploader list \<times> 'dp effect list \<times> (fileContractID \<rightharpoonup> contractMetadata)" where
  "refreshLoop ops now bh renewedTo [] toKeep = ([], [], toKeep)"
| "refreshLoop ops now bh renewedTo (u # us) toKeep =
     (let fcid = u_fcid u
      in if \<not> (toKeep fcid \<noteq> None \<or> renewedTo fcid \<noteq> None) then
           (case refreshLoop ops now bh renewedTo us toKeep of
              (kept, effs, missing) \<Rightarrow> (kept, Stopped u # effs, missing))
         else
           (let toKeep' = toKeep(fcid := None);
                u1 = (case renewedTo fcid of
                        Some renewal \<Rightarrow> renew renewal bh u
                      | None \<Rightarrow> updateBlockHeight bh u);
                u2 = tryRecomputeStats ops now u1
            in case refreshLoop ops now bh renewedTo us toKeep' of
                 (kept, effs, missing) \<Rightarrow>
                   (u2 # kept,
                    (case renewedTo fcid of
                       Some renewal \<Rightarrow> Renewed u renewal # effs
                     | None \<Rightarrow> effs),
                    missing)))"

text \<open>
  The loop over what is left of \<^verbatim>\<open>toKeep\<close>. Go visits the keys of a map in an order of its
  own choosing: \<open>order\<close> is that order.
\<close>

fun spawnLoop ::
  "'dp statsOps \<Rightarrow> uint64 \<Rightarrow> (fileContractID \<rightharpoonup> contractMetadata) \<Rightarrow> fileContractID list \<Rightarrow>
   'dp uploader list \<times> 'dp effect list" where
  "spawnLoop ops bh missing [] = ([], [])"
| "spawnLoop ops bh missing (k # ks) =
     (case missing k of
        None \<Rightarrow> spawnLoop ops bh missing ks
      | Some c \<Rightarrow>
          (case spawnLoop ops bh missing ks of
             (new, effs) \<Rightarrow> (newUploader ops c bh # new, Started (newUploader ops c bh) # effs)))"

definition refreshUploaders ::
  "'dp statsOps \<Rightarrow> int \<Rightarrow> fileContractID list \<Rightarrow> contractMetadata list \<Rightarrow> uint64 \<Rightarrow>
   'dp uploadManager \<Rightarrow> 'dp uploadManager \<times> 'dp effect list" where
  "refreshUploaders ops now order contracts bh mgr =
     (let toKeep = buildToKeep contracts Map.empty;
          renewedTo = buildRenewedTo contracts Map.empty
      in case refreshLoop ops now bh renewedTo (mgr_uploaders mgr) toKeep of
           (kept, effs, missing) \<Rightarrow>
             (case spawnLoop ops bh missing order of
                (new, effs') \<Rightarrow> (mgr\<lparr>mgr_uploaders := kept @ new\<rparr>, effs @ effs')))"

text \<open>
  \<^verbatim>\<open>newUpload\<close>; \<open>newID\<close> is the identifier that \<^verbatim>\<open>api.NewUploadID\<close> draws when it is
  called.
\<close>

definition newUpload ::
  "'dp statsOps \<Rightarrow> int \<Rightarrow> fileContractID list \<Rightarrow> uploadID \<Rightarrow> int \<Rightarrow> contractMetadata list \<Rightarrow> uint64 \<Rightarrow>
   int \<Rightarrow> 'dp uploadManager \<Rightarrow> (err + upload) \<times> 'dp uploadManager \<times> 'dp effect list" where
  "newUpload ops now order newID totalShards contracts bh lockPriority mgr =
     (case refreshUploaders ops now order contracts bh mgr of
        (mgr', effs) \<Rightarrow>
          if int (length contracts) < totalShards then
            (Inl (errNotEnoughContracts (length contracts) totalShards), mgr', effs)
          else
            (Inr \<lparr>up_id = newID,
                  up_allowed = c_HostKey ` set contracts,
                  up_lockPriority = lockPriority\<rparr>,
             mgr', effs @ [MintedUploadID newID]))"

subsection \<open>The slab upload\<close>

text \<open>\<^verbatim>\<open>object.Sector\<close>; its map of contracts is an association list.\<close>

record sector =
  Contracts :: "(publicKey \<times> fileContractID list) list"
  LatestHost :: publicKey
  Root :: hash256

definition emptySector :: sector where
  "emptySector = \<lparr>Contracts = [], LatestHost = 0, Root = 0\<rparr>"

text \<open>
  A sector upload; \<open>su_cancelled\<close> says whether \<^verbatim>\<open>cancel\<close> has been called on its context.
\<close>

record sectorUpload =
  su_data :: "8 word list option"
  su_index :: nat
  su_root :: hash256
  su_uploaded :: sector
  su_cancelled :: bool

definition isUploaded :: "sectorUpload \<Rightarrow> bool" where
  "isUploaded su = (Root (su_uploaded su) \<noteq> 0)"

text \<open>
  The map \<^verbatim>\<open>overdriving\<close> sends an index to a set of hosts; the code reads an absent key
  and an empty set alike (a length of zero, nothing to range over), so an absent key is the
  empty set here.
\<close>

record 'dp slabUpload =
  s_uploadID :: uploadID
  s_created :: int
  s_lockPriority :: int
  s_maxOverdrive :: uint64
  s_overdriveTimeout :: int
  s_candidates :: "'dp uploader list"
  s_shards :: "8 word list option list"
  s_numInflight :: uint64
  s_numLaunched :: uint64
  s_numUploaded :: uint64
  s_overdriving :: "nat \<Rightarrow> publicKey set"
  s_lastOverdrive :: "int option"
  s_numOverdriving :: uint64
  s_sectors :: "nat \<rightharpoonup> sectorUpload"
  s_used :: "publicKey set"
  s_errs :: "(publicKey \<times> err) list"

text \<open>\<^verbatim>\<open>s.errs[hk] = e\<close> on the association list.\<close>

fun setErr :: "publicKey \<Rightarrow> err \<Rightarrow> (publicKey \<times> err) list \<Rightarrow> (publicKey \<times> err) list" where
  "setErr hk e [] = [(hk, e)]"
| "setErr hk e ((k, v) # kvs) = (if k = hk then (k, e) # kvs else (k, v) # setErr hk e kvs)"

text \<open>
  \<^verbatim>\<open>newSlabUpload\<close>: one sector and one request for each shard. \<open>sectorRoot\<close> is
  \<^verbatim>\<open>rhpv2.SectorRoot\<close>, of another module.
\<close>

fun newSectors ::
  "(8 word list \<Rightarrow> hash256) \<Rightarrow> nat \<Rightarrow> 8 word list option list \<Rightarrow> (nat \<rightharpoonup> sectorUpload)" where
  "newSectors sectorRoot sI [] = Map.empty"
| "newSectors sectorRoot sI (shard # shards) =
     (newSectors sectorRoot (Suc sI) shards)
       (sI \<mapsto> \<lparr>su_data = shard,
                su_index = sI,
                su_root = sectorRoot (case shard of None \<Rightarrow> [] | Some bs \<Rightarrow> bs),
                su_uploaded = emptySector,
                su_cancelled = False\<rparr>)"

definition newRequest :: "upload \<Rightarrow> nat \<Rightarrow> sectorUploadReq" where
  "newRequest u sI =
     \<lparr>req_lockPriority = up_lockPriority u,
      req_overdrive = False,
      req_sector = sI,
      req_uploadID = up_id u,
      req_fcid = 0,
      req_hk = 0\<rparr>"

definition newSlabUpload ::
  "(8 word list \<Rightarrow> hash256) \<Rightarrow> int \<Rightarrow> upload \<Rightarrow> 8 word list option list \<Rightarrow> 'dp uploader list \<Rightarrow>
   uint64 \<Rightarrow> int \<Rightarrow> 'dp slabUpload \<times> sectorUploadReq list" where
  "newSlabUpload sectorRoot now u shards candidates maxOverdrive overdriveTimeout =
     (\<lparr>s_uploadID = up_id u,
       s_created = now,
       s_lockPriority = up_lockPriority u,
       s_maxOverdrive = maxOverdrive,
       s_overdriveTimeout = overdriveTimeout,
       s_candidates = candidates,
       s_shards = shards,
       s_numInflight = 0,
       s_numLaunched = 0,
       s_numUploaded = 0,
       s_overdriving = (\<lambda>_. {}),
       s_lastOverdrive = None,
       s_numOverdriving = 0,
       s_sectors = newSectors sectorRoot 0 shards,
       s_used = {},
       s_errs = []\<rparr>,
      map (newRequest u) [0..<length shards])"

text \<open>The first candidate whose host is not in \<^verbatim>\<open>used\<close>, as its position in the list.\<close>

fun findCandidate :: "publicKey set \<Rightarrow> 'dp uploader list \<Rightarrow> nat option" where
  "findCandidate used [] = None"
| "findCandidate used (u # us) =
     (if u_hk u \<in> used then map_option Suc (findCandidate used us) else Some 0)"

text \<open>
  \<^verbatim>\<open>launch(req)\<close> returns \<^verbatim>\<open>(interrupt, err)\<close> and the new state; \<open>None\<close> is the nil
  request. The state holds the uploaders it points to, so the queue of the chosen
  candidate grows in \<open>s_candidates\<close>.
\<close>

definition launch ::
  "sectorUploadReq option \<Rightarrow> int \<Rightarrow> 'dp slabUpload \<Rightarrow> (bool \<times> err option) \<times> 'dp slabUpload" where
  "launch r now s =
     (case r of
        None \<Rightarrow> ((False, None), s)
      | Some req \<Rightarrow>
          (case findCandidate (s_used s) (s_candidates s) of
             None \<Rightarrow>
               ((\<not> req_overdrive req \<and> card (s_overdriving s (req_sector req)) = 0,
                 Some errNoCandidateUploader), s)
           | Some i \<Rightarrow>
               (case enqueue req (s_candidates s ! i) of
                  (req', candidate') \<Rightarrow>
                    (let s1 = s\<lparr>s_candidates := (s_candidates s)[i := candidate'],
                                s_numInflight := s_numInflight s + 1,
                                s_numLaunched := s_numLaunched s + 1,
                                s_used := insert (req_hk req') (s_used s)\<rparr>
                     in ((False, None),
                         (if req_overdrive req' then
                            s1\<lparr>s_lastOverdrive := Some now,
                               s_numOverdriving := s_numOverdriving s1 + 1,
                               s_overdriving := (s_overdriving s1)
                                 (req_sector req' :=
                                    insert (req_hk req') (s_overdriving s1 (req_sector req')))\<rparr>
                          else s1))))))"

text \<open>The check made when the overdrive timer fires.\<close>

definition canOverdrive :: "int \<Rightarrow> 'dp slabUpload \<Rightarrow> bool" where
  "canOverdrive now s =
     (let remaining = of_nat (length (s_shards s)) - s_numUploaded s
      in if remaining \<ge> s_maxOverdrive s then False
         else if since now (s_lastOverdrive s) < s_overdriveTimeout s then False
         else if s_numInflight s - remaining \<ge> s_maxOverdrive s then False
         else True)"

text \<open>
  The loop of \<^verbatim>\<open>nextRequest\<close> over \<^verbatim>\<open>s.sectors\<close>, visiting the keys in \<open>order\<close>;
  \<^verbatim>\<open>lowestNumOverdrives\<close> keeps the value it starts with.
\<close>

fun nextSector :: "'dp slabUpload \<Rightarrow> nat list \<Rightarrow> sectorUpload option \<Rightarrow> sectorUpload option" where
  "nextSector s [] nxt = nxt"
| "nextSector s (k # ks) nxt =
     (case s_sectors s k of
        None \<Rightarrow> nextSector s ks nxt
      | Some sector \<Rightarrow>
          if \<not> isUploaded sector \<and> int (card (s_overdriving s (su_index sector))) < MaxInt
          then nextSector s ks (Some sector)
          else nextSector s ks nxt)"

definition nextRequest :: "nat list \<Rightarrow> 'dp slabUpload \<Rightarrow> sectorUploadReq option" where
  "nextRequest order s =
     (case nextSector s order None of
        None \<Rightarrow> None
      | Some sector \<Rightarrow>
          Some \<lparr>req_lockPriority = s_lockPriority s,
                req_overdrive = True,
                req_sector = su_index sector,
                req_uploadID = s_uploadID s,
                req_fcid = 0,
                req_hk = 0\<rparr>)"

text \<open>What the goroutine of \<^verbatim>\<open>overdrive\<close> does when the timer fires.\<close>

definition overdriveTick :: "int \<Rightarrow> nat list \<Rightarrow> 'dp slabUpload \<Rightarrow> 'dp slabUpload" where
  "overdriveTick now order s =
     (if canOverdrive now s then snd (launch (nextRequest order s) now s) else s)"

text \<open>
  \<^verbatim>\<open>receive(resp)\<close> returns whether the slab is complete. A request that points to no
  sector is the nil pointer; writing \<^verbatim>\<open>s.shards\<close> beyond its length panics.
\<close>

definition receive :: "sectorUploadResp \<Rightarrow> 'dp slabUpload \<Rightarrow> err + bool \<times> 'dp slabUpload" where
  "receive resp s =
     (let req = resp_req resp
      in case s_sectors s (req_sector req) of
           None \<Rightarrow> Inl panicNilDereference
         | Some sector \<Rightarrow>
             (let s1 = (if req_overdrive req
                        then s\<lparr>s_numOverdriving := s_numOverdriving s - 1\<rparr> else s);
                  s2 = s1\<lparr>s_numInflight := s_numInflight s1 - 1\<rparr>
              in case resp_err resp of
                   Some e \<Rightarrow> Inr (False, s2\<lparr>s_errs := setErr (req_hk req) e (s_errs s2)\<rparr>)
                 | None \<Rightarrow>
                     if Root (su_uploaded sector) \<noteq> 0 then Inr (False, s2)
                     else if \<not> su_index sector < length (s_shards s2) then Inl panicIndexOutOfRange
                     else
                       (let sector' = sector
                              \<lparr>su_uploaded :=
                                 \<lparr>Contracts = [(req_hk req, [req_fcid req])],
                                  LatestHost = req_hk req,
                                  Root = resp_root resp\<rparr>,
                               su_cancelled := True,
                               su_data := None\<rparr>;
                            s3 = s2\<lparr>s_sectors := (s_sectors s2)(req_sector req \<mapsto> sector'),
                                    s_numUploaded := s_numUploaded s2 + 1,
                                    s_used := s_used s2 - s_overdriving s2 (su_index sector),
                                    s_shards := (s_shards s2)[su_index sector := None]\<rparr>
                        in Inr (s_numUploaded s3 = of_nat (length (s_shards s3)), s3))))"



text \<open>
  \<^verbatim>\<open>uploadSpeed\<close> at the instant \<open>now\<close>: \<^verbatim>\<open>int64(bytes) / ms\<close> panics when \<^verbatim>\<open>ms\<close> is
  zero.
\<close>

definition uploadSpeed :: "int \<Rightarrow> 'dp slabUpload \<Rightarrow> err + int" where
  "uploadSpeed now s =
     (let bytes = s_numUploaded s * (word_of_int SectorSize);
          ms = Milliseconds (since now (Some (s_created s)))
      in if ms = 0 then Inl panicDivideByZero else Inr (tdiv (sint bytes) ms))"

subsection \<open>The loop of uploadShards\<close>

text \<open>
  \<^verbatim>\<open>uploadShards\<close> launches the requests of \<^verbatim>\<open>newSlabUpload\<close> one after the other and
  returns at the first that fails; it then starts the overdrive goroutine and receives
  responses for as long as requests are in flight and the slab is not complete. What the
  uploaders and the timer do in between is a list of events:
  \<^item> \<open>EvLaunch now\<close>: the next request of the first loop is launched at \<open>now\<close>;
  \<^item> \<open>EvRespond now j out\<close>: the worker of candidate \<open>j\<close> pops the request at the head of
    its queue and sends a response for it, which the loop receives at \<open>now\<close>;
  \<^item> \<open>EvDrop j\<close>: that worker pops a request whose sector context is done and skips it;
  \<^item> \<open>EvTimer now order\<close>: the overdrive timer fires at \<open>now\<close>, and the range over
    \<^verbatim>\<open>s.sectors\<close> visits the keys in \<open>order\<close>.
\<close>

datatype outcome = Failed err | Succeeded hash256

datatype event =
    EvLaunch int
  | EvRespond int nat outcome
  | EvDrop nat
  | EvTimer int "nat list"

text \<open>
  Where \<^verbatim>\<open>uploadShards\<close> stands: in its first loop, in its second loop, after the second
  loop, or returned from the first loop with the error of a launch.
\<close>

datatype phase = Launching | Collecting | Exited | Aborted

text \<open>
  The state of a run: the slab, the requests the first loop has not launched yet, the
  phase, and two counters the code does not keep: the failed responses received and the
  successful responses that \<^verbatim>\<open>receive\<close> found redundant.
\<close>

record 'dp sys =
  sy_slab :: "'dp slabUpload"
  sy_todo :: "sectorUploadReq list"
  sy_phase :: phase
  sy_failed :: nat
  sy_redundant :: nat

definition initSys :: "'dp slabUpload \<times> sectorUploadReq list \<Rightarrow> 'dp sys" where
  "initSys p =
     \<lparr>sy_slab = fst p,
      sy_todo = snd p,
      sy_phase = (if snd p = [] then Collecting else Launching),
      sy_failed = 0,
      sy_redundant = 0\<rparr>"

definition respOf :: "sectorUploadReq \<Rightarrow> outcome \<Rightarrow> sectorUploadResp" where
  "respOf req out =
     (case out of
        Failed e \<Rightarrow> \<lparr>resp_req = req, resp_root = 0, resp_err = Some e\<rparr>
      | Succeeded h \<Rightarrow> \<lparr>resp_req = req, resp_root = h, resp_err = None\<rparr>)"

text \<open>Whether \<^verbatim>\<open>receive\<close> takes the branch of the redundant sector on this response.\<close>

definition redundant :: "sectorUploadResp \<Rightarrow> 'dp slabUpload \<Rightarrow> bool" where
  "redundant resp s =
     (resp_err resp = None \<and>
      (case s_sectors s (req_sector (resp_req resp)) of
         None \<Rightarrow> False
       | Some sector \<Rightarrow> isUploaded sector))"

text \<open>
  One iteration of the second loop on the response \<open>resp\<close>: receive it, and launch the
  request again when it failed and was not an overdrive; the loop is left when the slab is
  complete or at the \<^verbatim>\<open>break\<close>. The first result of \<^verbatim>\<open>launch\<close> is bound to the name
  \<^verbatim>\<open>overdriving\<close> there.
\<close>

definition collect :: "int \<Rightarrow> sectorUploadResp \<Rightarrow> 'dp sys \<Rightarrow> 'dp sys option" where
  "collect now resp y =
     (case receive resp (sy_slab y) of
        Inl _ \<Rightarrow> None
      | Inr (done, s1) \<Rightarrow>
          (let y1 = y\<lparr>sy_failed := sy_failed y + (if resp_err resp \<noteq> None then 1 else 0),
                      sy_redundant := sy_redundant y + (if redundant resp (sy_slab y) then 1 else 0)\<rparr>
           in if done then Some (y1\<lparr>sy_slab := s1, sy_phase := Exited\<rparr>)
              else if resp_err resp \<noteq> None \<and> \<not> req_overdrive (resp_req resp) then
                (case launch (Some (resp_req resp)) now s1 of
                   ((overdriving, e), s2) \<Rightarrow>
                     Some (y1\<lparr>sy_slab := s2,
                              sy_phase := (if e \<noteq> None \<and> \<not> overdriving then Exited else Collecting)\<rparr>))
              else Some (y1\<lparr>sy_slab := s1\<rparr>)))"

text \<open>An event that cannot happen in the state gives \<open>None\<close>.\<close>

fun step :: "event \<Rightarrow> 'dp sys \<Rightarrow> 'dp sys option" where
  "step (EvLaunch now) y =
     (case (sy_phase y, sy_todo y) of
        (Launching, req # reqs) \<Rightarrow>
          (case launch (Some req) now (sy_slab y) of
             ((_, e), s1) \<Rightarrow>
               if e \<noteq> None then Some (y\<lparr>sy_slab := s1, sy_phase := Aborted\<rparr>)
               else Some (y\<lparr>sy_slab := s1, sy_todo := reqs,
                            sy_phase := (if reqs = [] then Collecting else Launching)\<rparr>))
      | _ \<Rightarrow> None)"
| "step (EvRespond now j out) y =
     (if sy_phase y = Collecting \<and> s_numInflight (sy_slab y) \<noteq> 0
         \<and> j < length (s_candidates (sy_slab y)) then
        (case pop (s_candidates (sy_slab y) ! j) of
           (None, _) \<Rightarrow> None
         | (Some req, u') \<Rightarrow>
             collect now (respOf req out)
               (y\<lparr>sy_slab := (sy_slab y)\<lparr>s_candidates := (s_candidates (sy_slab y))[j := u']\<rparr>\<rparr>))
      else None)"
| "step (EvDrop j) y =
     (if j < length (s_candidates (sy_slab y)) then
        (case pop (s_candidates (sy_slab y) ! j) of
           (None, _) \<Rightarrow> None
         | (Some req, u') \<Rightarrow>
             (case s_sectors (sy_slab y) (req_sector req) of
                None \<Rightarrow> None
              | Some sector \<Rightarrow>
                  if su_cancelled sector then
                    Some (y\<lparr>sy_slab := (sy_slab y)\<lparr>s_candidates := (s_candidates (sy_slab y))[j := u']\<rparr>\<rparr>)
                  else None))
      else None)"
| "step (EvTimer now order) y =
     (if (sy_phase y = Collecting \<or> sy_phase y = Exited) \<and> s_overdriveTimeout (sy_slab y) \<noteq> 0
      then Some (y\<lparr>sy_slab := overdriveTick now order (sy_slab y)\<rparr>)
      else None)"

fun run :: "event list \<Rightarrow> 'dp sys \<Rightarrow> 'dp sys option" where
  "run [] y = Some y"
| "run (ev # evs) y = (case step ev y of None \<Rightarrow> None | Some y' \<Rightarrow> run evs y')"

subsection \<open>Observations of a run\<close>

definition slabAfter :: "event list \<Rightarrow> 'dp sys \<Rightarrow> 'dp slabUpload option" where
  "slabAfter evs y = map_option sy_slab (run evs y)"

definition phaseAfter :: "event list \<Rightarrow> 'dp sys \<Rightarrow> phase option" where
  "phaseAfter evs y = map_option sy_phase (run evs y)"

text \<open>\<^verbatim>\<open>len(s.overdriving[i])\<close> and \<^verbatim>\<open>s.sectors[i].uploaded\<close>.\<close>

definition numOverdrives :: "nat \<Rightarrow> 'dp slabUpload \<Rightarrow> nat" where
  "numOverdrives i s = card (s_overdriving s i)"

definition uploadedAt :: "nat \<Rightarrow> 'dp slabUpload \<Rightarrow> sector option" where
  "uploadedAt i s = map_option su_uploaded (s_sectors s i)"


subsection \<open>Invariants of a run\<close>

text \<open>
  The launched requests are the uploaded sectors, the requests in flight, the failed
  responses and the redundant successful responses, in the arithmetic of \<^verbatim>\<open>uint64\<close>.
\<close>

definition balanced :: "'dp sys \<Rightarrow> bool" where
  "balanced y =
     (s_numLaunched (sy_slab y) =
        s_numUploaded (sy_slab y) + s_numInflight (sy_slab y)
          + of_nat (sy_failed y) + of_nat (sy_redundant y))"






subsection \<open>Concrete inputs\<close>

text \<open>
  An implementation of the statistics in which a \<^verbatim>\<open>DataPoints\<close> is the value its \<^verbatim>\<open>P90\<close>
  reports, and the contracts, uploaders, slabs and schedules on which the code is run
  below.
\<close>

definition exOps :: "real statsOps" where
  "exOps = \<lparr>st_Default = 0, st_NoDecay = 0, st_Track = (\<lambda>x d. x), st_P90 = (\<lambda>d. d),
            st_Recompute = (\<lambda>d. d)\<rparr>"

definition exContract :: "nat \<Rightarrow> contractMetadata" where
  "exContract n =
     \<lparr>c_ID = of_nat (100 + n), c_HostKey = of_nat n, c_SiamuxAddr = [], c_RenewedFrom = 0,
      c_WindowEnd = 0\<rparr>"

text \<open>A renewal of the contract of host 1.\<close>

definition exRenewal :: contractMetadata where
  "exRenewal =
     \<lparr>c_ID = 201, c_HostKey = 1, c_SiamuxAddr = [], c_RenewedFrom = 101, c_WindowEnd = 0\<rparr>"

definition exUploader :: "nat \<Rightarrow> real uploader" where
  "exUploader n = newUploader exOps (exContract n) 0"

definition exMgr :: "real uploadManager" where
  "exMgr = \<lparr>mgr_maxOverdrive = 3, mgr_overdriveTimeout = 1000, mgr_uploaders = []\<rparr>"

definition exUpload :: upload where
  "exUpload = \<lparr>up_id = 1, up_allowed = {}, up_lockPriority = 0\<rparr>"

definition exHosts2 :: "real uploader list" where
  "exHosts2 = [exUploader 1, exUploader 2]"

definition exHosts3 :: "real uploader list" where
  "exHosts3 = [exUploader 1, exUploader 2, exUploader 3]"

definition exHosts5 :: "real uploader list" where
  "exHosts5 = [exUploader 1, exUploader 2, exUploader 3, exUploader 4, exUploader 5]"

text \<open>
  The start of \<^verbatim>\<open>uploadShards\<close> on the given shards and candidates with a maximum
  overdrive of \<open>k\<close> and an overdrive timeout of 1000 ns.
\<close>

definition exSys :: "8 word list option list \<Rightarrow> real uploader list \<Rightarrow> uint64 \<Rightarrow> real sys" where
  "exSys shards cands k = initSys (newSlabUpload (\<lambda>_. 5) 0 exUpload shards cands k 1000)"

text \<open>
  Two shards are launched, then the timer fires and the range over the sectors ends on
  index 0, respectively on index 1.
\<close>

definition trOverdriveOn0 :: "event list" where
  "trOverdriveOn0 = [EvLaunch 1, EvLaunch 2, EvTimer 1000 [1, 0]]"

definition trOverdriveOn1 :: "event list" where
  "trOverdriveOn1 = [EvLaunch 1, EvLaunch 2, EvTimer 1000 [0, 1]]"


text \<open>Index 0 is uploaded by host 1, then its overdrive on host 3 succeeds as well.\<close>

definition trLateDuplicate :: "event list" where
  "trLateDuplicate =
     [EvLaunch 1, EvLaunch 2, EvTimer 1000 [1, 0], EvRespond 1500 0 (Succeeded 9),
      EvRespond 1600 2 (Succeeded 9)]"







section \<open>Properties\<close>

subsection \<open>What launch and receive change\<close>

lemma launch_unchanged:
  assumes "launch r now s = (res, s')"
  shows "s_sectors s' = s_sectors s" and "s_shards s' = s_shards s"
    and "s_numUploaded s' = s_numUploaded s" and "s_maxOverdrive s' = s_maxOverdrive s"
    and "s_overdriveTimeout s' = s_overdriveTimeout s"
    and "length (s_candidates s') = length (s_candidates s)"
    and "s_errs s' = s_errs s"
  using assms
  by (auto simp: launch_def enqueue_def Let_def split: option.splits prod.splits if_splits)

lemma launch_counters:
  assumes "launch r now s = (res, s')"
  shows "(s_numInflight s' = s_numInflight s \<and> s_numLaunched s' = s_numLaunched s)
       \<or> (s_numInflight s' = s_numInflight s + 1 \<and> s_numLaunched s' = s_numLaunched s + 1)"
  using assms
  by (auto simp: launch_def enqueue_def Let_def split: option.splits prod.splits if_splits)

lemma receive_unchanged:
  assumes "receive resp s = Inr (d, s')"
  shows "length (s_shards s') = length (s_shards s)" and "s_maxOverdrive s' = s_maxOverdrive s"
    and "s_overdriveTimeout s' = s_overdriveTimeout s"
    and "s_candidates s' = s_candidates s" and "s_numLaunched s' = s_numLaunched s"
    and "s_numInflight s' = s_numInflight s - 1"
  using assms
  by (auto simp: receive_def Let_def split: option.splits if_splits)




lemma collect_cases:
  assumes "collect now resp y = Some y'"
  obtains d s1 where "receive resp (sy_slab y) = Inr (d, s1)"
    and "sy_failed y' = sy_failed y + (if resp_err resp \<noteq> None then 1 else 0)"
    and "sy_redundant y' = sy_redundant y + (if redundant resp (sy_slab y) then 1 else 0)"
    and "sy_todo y' = sy_todo y"
    and "d \<longrightarrow> sy_phase y' = Exited"
    and "sy_phase y' = Exited \<or> sy_phase y' = Collecting \<or> sy_phase y' = sy_phase y"
    and "sy_slab y' = s1
         \<or> (\<not> d \<and> resp_err resp \<noteq> None \<and> \<not> req_overdrive (resp_req resp)
             \<and> (\<exists>res. launch (Some (resp_req resp)) now s1 = (res, sy_slab y')))"
proof -
  from assms obtain d s1 where r: "receive resp (sy_slab y) = Inr (d, s1)"
    by (auto simp: collect_def split: sum.splits)
  show thesis
  proof (rule that [OF r])
    show "sy_failed y' = sy_failed y + (if resp_err resp \<noteq> None then 1 else 0)"
      using assms r by (auto simp: collect_def Let_def split: if_splits prod.splits)
    show "sy_redundant y' = sy_redundant y + (if redundant resp (sy_slab y) then 1 else 0)"
      using assms r by (auto simp: collect_def Let_def split: if_splits prod.splits)
    show "sy_todo y' = sy_todo y"
      using assms r by (auto simp: collect_def Let_def split: if_splits prod.splits)
    show "d \<longrightarrow> sy_phase y' = Exited"
      using assms r by (auto simp: collect_def Let_def split: if_splits prod.splits)
    show "sy_phase y' = Exited \<or> sy_phase y' = Collecting \<or> sy_phase y' = sy_phase y"
      using assms r by (auto simp: collect_def Let_def split: if_splits prod.splits)
    show "sy_slab y' = s1
         \<or> (\<not> d \<and> resp_err resp \<noteq> None \<and> \<not> req_overdrive (resp_req resp)
             \<and> (\<exists>res. launch (Some (resp_req resp)) now s1 = (res, sy_slab y')))"
      using assms r by (auto simp: collect_def Let_def split: if_splits prod.splits)
  qed
qed

subsection \<open>The estimate of an uploader\<close>

text \<open>
  C7, as the code has it: \<^verbatim>\<open>estimate()\<close> is the queue length plus one, times the P90 of the
  latency estimator, where only a P90 of exactly zero is replaced by 1. It therefore
  equals \<open>(queue_length + 1) * max(p90, 1)\<close> whenever the P90 is zero or at least 1, and an
  uploader whose estimator reports zero gets \<open>queue_length + 1\<close>.
\<close>

theorem estimate_zero_guard:
  "estimate ops u =
     real (length (u_queue u) + 1) *
       (if st_P90 ops (u_statsSectorUploadEstimateInMS u) = 0 then 1
        else st_P90 ops (u_statsSectorUploadEstimateInMS u))
   \<and> (st_P90 ops (u_statsSectorUploadEstimateInMS u) = 0
        \<or> 1 \<le> st_P90 ops (u_statsSectorUploadEstimateInMS u) \<longrightarrow>
      estimate ops u =
        real (length (u_queue u) + 1) * max (st_P90 ops (u_statsSectorUploadEstimateInMS u)) 1)"
  by (auto simp: estimate_def Let_def max_def)

theorem estimate_zero_guard_witness:
  "st_P90 exOps (u_statsSectorUploadEstimateInMS (exUploader 1)) = 0
   \<and> estimate exOps (exUploader 1) = real (length (u_queue (exUploader 1)) + 1) * max 0 1
   \<and> estimate exOps (exUploader 1) = 1"
  using estimate_zero_guard [of exOps "exUploader 1"]
  by (simp add: exOps_def exUploader_def newUploader_def)

text \<open>
  C7 as stated fails for a P90 strictly between 0 and 1: at a P90 of one half and an empty
  queue the estimate is one half, not 1.
\<close>

theorem estimate_max_counterexample:
  "estimate exOps ((exUploader 1)\<lparr>u_statsSectorUploadEstimateInMS := 1 / 2\<rparr>) \<noteq>
     real (length (u_queue ((exUploader 1)\<lparr>u_statsSectorUploadEstimateInMS := 1 / 2\<rparr>)) + 1)
       * max (st_P90 exOps
                (u_statsSectorUploadEstimateInMS
                   ((exUploader 1)\<lparr>u_statsSectorUploadEstimateInMS := 1 / 2\<rparr>))) 1"
  by (simp add: estimate_def exOps_def exUploader_def newUploader_def)

subsection \<open>Divisions by elapsed milliseconds\<close>

text \<open>
  C10 at its failing inputs: a successful sector upload measured at half a millisecond makes
  \<^verbatim>\<open>trackSectorUpload\<close> divide by zero, and so does \<^verbatim>\<open>uploadSpeed\<close> when it is called less
  than a millisecond after the slab upload was created.
\<close>

theorem division_by_zero_milliseconds:
  "trackSectorUpload ops None 500000 u = Inl panicDivideByZero
   \<and> uploadSpeed (s_created s + 999999) s = Inl panicDivideByZero"
  by (simp add: trackSectorUpload_def uploadSpeed_def Milliseconds_def tdiv_def since_def)

subsection \<open>A new upload without enough contracts\<close>

text \<open>
  C3, as the code has it: with fewer contracts than shards \<^verbatim>\<open>newUpload\<close> fails with
  \<^verbatim>\<open>errNotEnoughContracts\<close> and draws no upload identifier, but it has refreshed the
  uploaders first: the pool and the effects are those of \<^verbatim>\<open>refreshUploaders\<close> on the same
  contracts and block height.
\<close>

theorem newUpload_not_enough_contracts:
  "int (length contracts) < totalShards \<Longrightarrow>
   newUpload ops now order newID totalShards contracts bh lockPriority mgr =
     (Inl (errNotEnoughContracts (length contracts) totalShards),
      refreshUploaders ops now order contracts bh mgr)"
  by (simp add: newUpload_def split: prod.splits)

theorem newUpload_not_enough_contracts_witness:
  "int (length [exContract 1]) < 2
   \<and> newUpload exOps 0 [101] 7 2 [exContract 1] 0 0 exMgr =
       (Inl (errNotEnoughContracts 1 2), refreshUploaders exOps 0 [101] [exContract 1] 0 exMgr)"
  using newUpload_not_enough_contracts [of "[exContract 1]" 2 exOps 0 "[101]" 7 0 0 exMgr]
  by simp

text \<open>
  C3 as stated fails: on an empty pool, one contract and two shards, the call fails and
  leaves a pool of one uploader, whose worker it has started.
\<close>

theorem newUpload_side_effect_counterexample:
  "fst (newUpload exOps 0 [101] 7 2 [exContract 1] 0 0 exMgr) = Inl (errNotEnoughContracts 1 2)
   \<and> mgr_uploaders exMgr = []
   \<and> mgr_uploaders (fst (snd (newUpload exOps 0 [101] 7 2 [exContract 1] 0 0 exMgr)))
       = [exUploader 1]
   \<and> snd (snd (newUpload exOps 0 [101] 7 2 [exContract 1] 0 0 exMgr)) = [Started (exUploader 1)]"
  by (simp add: newUpload_def refreshUploaders_def exMgr_def exContract_def exUploader_def)

subsection \<open>The next overdrive request\<close>

text \<open>
  C4 at its failing input. After two launches and one overdrive of index 0, neither sector
  is uploaded, index 0 has one overdrive and index 1 has none; when the range over the
  sectors visits index 1 and then index 0, \<^verbatim>\<open>nextRequest\<close> returns a request for index 0,
  and the next firing of the timer gives index 0 its second overdrive. The loop never assigns
  \<^verbatim>\<open>lowestNumOverdrives\<close>, so it keeps the last sector it visits that is not uploaded.
\<close>

theorem nextRequest_picks_overdriven_sector:
  "map_option (nextRequest [1, 0]) (slabAfter trOverdriveOn0 (exSys [None, None] exHosts5 3))
     = Some (Some \<lparr>req_lockPriority = 0, req_overdrive = True, req_sector = 0,
                    req_uploadID = 1, req_fcid = 0, req_hk = 0\<rparr>)
   \<and> map_option (numOverdrives 0) (slabAfter trOverdriveOn0 (exSys [None, None] exHosts5 3)) = Some 1
   \<and> map_option (numOverdrives 1) (slabAfter trOverdriveOn0 (exSys [None, None] exHosts5 3)) = Some 0
   \<and> map_option (uploadedAt 1) (slabAfter trOverdriveOn0 (exSys [None, None] exHosts5 3))
       = Some (Some emptySector)
   \<and> map_option (numOverdrives 0)
        (slabAfter (trOverdriveOn0 @ [EvTimer 2000 [1, 0]]) (exSys [None, None] exHosts5 3)) = Some 2"
  by code_simp

subsection \<open>A launch that finds no candidate\<close>

text \<open>
  C6 at its failing inputs. With an overdrive of index 1 in flight, the upload of index 1
  fails and its relaunch finds no candidate: the loop is left. With no overdrive in flight,
  the upload of index 0 fails and its relaunch finds no candidate: the loop goes on.
\<close>

theorem relaunch_interrupt_inverted:
  "map_option (numOverdrives 1) (slabAfter trOverdriveOn1 (exSys [None, None] exHosts3 3)) = Some 1
   \<and> phaseAfter (trOverdriveOn1 @ [EvRespond 1500 1 (Failed (errHost ''timeout''))])
        (exSys [None, None] exHosts3 3) = Some Exited
   \<and> map_option (numOverdrives 0) (slabAfter [EvLaunch 1, EvLaunch 2] (exSys [None, None] exHosts2 3))
       = Some 0
   \<and> phaseAfter [EvLaunch 1, EvLaunch 2, EvRespond 1500 0 (Failed (errHost ''timeout''))]
        (exSys [None, None] exHosts2 3) = Some Collecting"
  by code_simp

subsection \<open>Refreshing the uploaders twice\<close>

text \<open>
  C9 at its failing input: the pool holds the uploader of contract 101 and the contract
  list holds the renewal 201 of 101. The first call renews the uploader and also starts a
  second uploader for 201; the second call, on the same input, stops that second uploader.
\<close>

theorem refreshUploaders_twice:
  "map u_fcid (mgr_uploaders (fst (refreshUploaders exOps 5 [201] [exRenewal] 7
       (exMgr\<lparr>mgr_uploaders := [exUploader 1]\<rparr>)))) = [201, 201]
   \<and> snd (refreshUploaders exOps 5 [201] [exRenewal] 7 (exMgr\<lparr>mgr_uploaders := [exUploader 1]\<rparr>))
       = [Renewed (exUploader 1) exRenewal, Started (newUploader exOps exRenewal 7)]
   \<and> map u_fcid (mgr_uploaders (fst (refreshUploaders exOps 5 [201] [exRenewal] 7
       (fst (refreshUploaders exOps 5 [201] [exRenewal] 7
          (exMgr\<lparr>mgr_uploaders := [exUploader 1]\<rparr>)))))) = [201]
   \<and> snd (refreshUploaders exOps 5 [201] [exRenewal] 7
       (fst (refreshUploaders exOps 5 [201] [exRenewal] 7
          (exMgr\<lparr>mgr_uploaders := [exUploader 1]\<rparr>))))
       = [Stopped (newUploader exOps exRenewal 7)]"
  by (simp add: refreshUploaders_def exRenewal_def exContract_def exUploader_def newUploader_def renew_def
      updateBlockHeight_def tryRecomputeStats_def since_def maxDuration_def statsRecomputeMinInterval_def exMgr_def exOps_def)

subsection \<open>The balance of launched requests\<close>

lemma receive_uploaded_count:
  assumes "receive resp s = Inr (d, s')"
  shows "s_numUploaded s' + (if resp_err resp \<noteq> None then 1 else 0)
           + (if redundant resp s then 1 else 0) = s_numUploaded s + 1"
  using assms
  by (auto simp: receive_def redundant_def isUploaded_def Let_def split: option.splits if_splits)

lemma balanced_collect:
  assumes "balanced y" and "collect now resp y = Some y'"
  shows "balanced y'"
proof -
  from assms(2) obtain d s1 where r: "receive resp (sy_slab y) = Inr (d, s1)"
    and f: "sy_failed y' = sy_failed y + (if resp_err resp \<noteq> None then 1 else 0)"
    and g: "sy_redundant y' = sy_redundant y + (if redundant resp (sy_slab y) then 1 else 0)"
    and l: "sy_slab y' = s1
         \<or> (\<not> d \<and> resp_err resp \<noteq> None \<and> \<not> req_overdrive (resp_req resp)
             \<and> (\<exists>res. launch (Some (resp_req resp)) now s1 = (res, sy_slab y')))"
    by (rule collect_cases)
  have infl: "s_numInflight s1 = s_numInflight (sy_slab y) - 1"
    and lau: "s_numLaunched s1 = s_numLaunched (sy_slab y)"
    using receive_unchanged [OF r] by simp_all
  have up: "s_numUploaded s1 + (if resp_err resp \<noteq> None then 1 else 0)
           + (if redundant resp (sy_slab y) then 1 else 0) = s_numUploaded (sy_slab y) + 1"
    by (rule receive_uploaded_count [OF r])
  have s1: "s_numLaunched s1 = s_numUploaded s1 + s_numInflight s1
      + of_nat (sy_failed y') + of_nat (sy_redundant y')"
  proof -
    have a: "s_numUploaded s1 + of_nat (sy_failed y') + of_nat (sy_redundant y')
        = (s_numUploaded s1 + (if resp_err resp \<noteq> None then 1 else 0)
           + (if redundant resp (sy_slab y) then 1 else 0))
          + of_nat (sy_failed y) + of_nat (sy_redundant y)"
      unfolding f g by simp
    have "s_numUploaded s1 + s_numInflight s1 + of_nat (sy_failed y') + of_nat (sy_redundant y')
        = (s_numUploaded s1 + of_nat (sy_failed y') + of_nat (sy_redundant y'))
            + s_numInflight (sy_slab y) - 1"
      by (simp add: infl)
    also have "\<dots> = (s_numUploaded (sy_slab y) + 1 + of_nat (sy_failed y) + of_nat (sy_redundant y))
            + s_numInflight (sy_slab y) - 1"
      by (simp only: a up)
    also have "\<dots> = s_numUploaded (sy_slab y) + s_numInflight (sy_slab y)
            + of_nat (sy_failed y) + of_nat (sy_redundant y)"
      by simp
    also have "\<dots> = s_numLaunched s1"
      using assms(1) lau by (simp add: balanced_def)
    finally show ?thesis by simp
  qed
  from l show ?thesis
  proof
    assume "sy_slab y' = s1"
    with s1 show ?thesis by (simp add: balanced_def)
  next
    assume "\<not> d \<and> resp_err resp \<noteq> None \<and> \<not> req_overdrive (resp_req resp)
             \<and> (\<exists>res. launch (Some (resp_req resp)) now s1 = (res, sy_slab y'))"
    then obtain res where la: "launch (Some (resp_req resp)) now s1 = (res, sy_slab y')"
      by blast
    from launch_counters [OF la] launch_unchanged(3) [OF la] s1 show ?thesis
      by (auto simp: balanced_def)
  qed
qed

lemma balanced_step:
  assumes "balanced y" and "step ev y = Some y'"
  shows "balanced y'"
proof (cases ev)
  case (EvLaunch now)
  with assms(2) obtain req res s1 where
    l: "launch (Some req) now (sy_slab y) = (res, s1)" and y': "sy_slab y' = s1"
      "sy_failed y' = sy_failed y" "sy_redundant y' = sy_redundant y"
    by (auto split: phase.splits list.splits prod.splits if_splits)
  from launch_counters [OF l] launch_unchanged(3) [OF l] assms(1) y' show ?thesis
    by (auto simp: balanced_def)
next
  case (EvRespond now j out)
  with assms(2) obtain req u' where
    c: "collect now (respOf req out)
          (y\<lparr>sy_slab := (sy_slab y)\<lparr>s_candidates := (s_candidates (sy_slab y))[j := u']\<rparr>\<rparr>) = Some y'"
    by (auto split: if_splits prod.splits option.splits)
  from assms(1) have "balanced (y\<lparr>sy_slab := (sy_slab y)\<lparr>s_candidates := (s_candidates (sy_slab y))[j := u']\<rparr>\<rparr>)"
    by (simp add: balanced_def)
  from balanced_collect [OF this c] show ?thesis .
next
  case (EvDrop j)
  with assms show ?thesis
    by (auto simp: balanced_def split: if_splits prod.splits option.splits)
next
  case (EvTimer now order)
  obtain res s1 where l: "launch (nextRequest order (sy_slab y)) now (sy_slab y) = (res, s1)"
    by (cases "launch (nextRequest order (sy_slab y)) now (sy_slab y)") auto
  from EvTimer assms(2) l have "y' = y \<or> (sy_slab y' = s1 \<and> sy_failed y' = sy_failed y \<and> sy_redundant y' = sy_redundant y)"
    by (auto simp: overdriveTick_def split: if_splits)
  with launch_counters [OF l] launch_unchanged(3) [OF l] assms(1) show ?thesis
    by (auto simp: balanced_def)
qed

lemma balanced_run:
  "balanced y \<Longrightarrow> run evs y = Some y' \<Longrightarrow> balanced y'"
proof (induction evs arbitrary: y)
  case Nil
  then show ?case by simp
next
  case (Cons ev evs)
  then show ?case
    by (auto split: option.splits dest: balanced_step)
qed

lemma balanced_init: "balanced (initSys (newSlabUpload sectorRoot now u shards candidates k t))"
  by (simp add: balanced_def initSys_def newSlabUpload_def)

text \<open>
  C8, as the code has it: in every state of a run,
  \<open>num_launched = num_uploaded + num_inflight + num_failed + num_redundant\<close>, where
  \<open>num_redundant\<close> counts the successful responses that arrived for an index that was
  already uploaded. A launch increments the launched and the in-flight counter together;
  a receive decrements the in-flight counter and increments exactly one of the other three.
\<close>

theorem launched_balance:
  assumes "run evs (initSys (newSlabUpload sectorRoot now u shards candidates maxOverdrive overdriveTimeout)) = Some y"
  shows "s_numLaunched (sy_slab y) =
           s_numUploaded (sy_slab y) + s_numInflight (sy_slab y)
             + of_nat (sy_failed y) + of_nat (sy_redundant y)"
  using balanced_run [OF balanced_init assms] by (simp add: balanced_def)

theorem launched_balance_witness:
  "\<exists>y. run trLateDuplicate (exSys [None, None] exHosts3 3) = Some y
       \<and> s_numLaunched (sy_slab y) =
           s_numUploaded (sy_slab y) + s_numInflight (sy_slab y)
             + of_nat (sy_failed y) + of_nat (sy_redundant y)
       \<and> sy_redundant y = 1"
proof -
  have "map_option sy_redundant (run trLateDuplicate (exSys [None, None] exHosts3 3)) = Some 1"
    by code_simp
  then obtain y where r: "run trLateDuplicate (exSys [None, None] exHosts3 3) = Some y"
    and d: "sy_redundant y = 1"
    by auto
  from launched_balance [OF r [unfolded exSys_def]] r d show ?thesis
    by blast
qed

text \<open>
  C8 as stated fails after a late duplicate: host 1 uploads index 0, then the overdrive of
  index 0 on host 3 succeeds as well. Three requests were launched, one sector is uploaded,
  one request is in flight and no response has failed.
\<close>

theorem late_duplicate_counterexample:
  "map_option s_numLaunched (slabAfter trLateDuplicate (exSys [None, None] exHosts3 3)) = Some 3
   \<and> map_option s_numUploaded (slabAfter trLateDuplicate (exSys [None, None] exHosts3 3)) = Some 1
   \<and> map_option s_numInflight (slabAfter trLateDuplicate (exSys [None, None] exHosts3 3)) = Some 1
   \<and> map_option sy_failed (run trLateDuplicate (exSys [None, None] exHosts3 3)) = Some 0"
  by code_simp

subsection \<open>The bound on the requests in flight\<close>






















subsection \<open>The result of finish\<close>



















subsection \<open>The first successful response\<close>









end
